theory Spec2Isabelle
  imports Complex_Main "HOL-Library.Sublist" "HOL-Library.Product_Lexorder"
begin

section \<open>Customer Success Copilot: health scoring, classification and alert views\<close>

text \<open>
  Shallow embedding of the scoring, classification, alerting and list-selection code of the
  repository. JavaScript and Python numbers that carry scores are modelled as \<^typ>\<open>real\<close>
  (decimal literals such as \<open>0.8\<close> stand for their decimal value), counts of days and of
  tickets as \<^typ>\<open>int\<close>, strings as \<^typ>\<open>string\<close>.
\<close>

subsection \<open>Risk classifier (frontend/src/pages/AnalyticsPage.tsx, frontend/src/services/api.ts)\<close>

record risk_level =
  label :: string
  color :: string

text \<open>\<open>getRiskLevel\<close> of the Ant Design customer list (AnalyticsPage.tsx, line 1323).\<close>

definition getRiskLevel :: "real \<Rightarrow> risk_level" where
  "getRiskLevel score =
     (if score \<ge> 0.8 then \<lparr>label = ''Excellent'', color = ''green''\<rparr>
      else if score \<ge> 0.6 then \<lparr>label = ''Good'', color = ''blue''\<rparr>
      else if score \<ge> 0.3 then \<lparr>label = ''At Risk'', color = ''orange''\<rparr>
      else \<lparr>label = ''Critical'', color = ''red''\<rparr>)"

text \<open>\<open>getRiskLevel\<close> of the Material UI customer list (AnalyticsPage.tsx, line 975).\<close>

definition getRiskLevel_mui :: "real \<Rightarrow> risk_level" where
  "getRiskLevel_mui score =
     (if score \<ge> 0.8 then \<lparr>label = ''Excellent'', color = ''success''\<rparr>
      else if score \<ge> 0.6 then \<lparr>label = ''Good'', color = ''info''\<rparr>
      else if score \<ge> 0.3 then \<lparr>label = ''At Risk'', color = ''warning''\<rparr>
      else \<lparr>label = ''Critical'', color = ''error''\<rparr>)"

text \<open>\<open>getHealthColor\<close> (api.ts, line 137): the same four bands, as colours.\<close>

definition getHealthColor :: "real \<Rightarrow> string" where
  "getHealthColor score =
     (if score \<ge> 0.8 then ''#4caf50''
      else if score \<ge> 0.6 then ''#ff9800''
      else if score \<ge> 0.3 then ''#f44336''
      else ''#d32f2f'')"

subsection \<open>Data contract of the dashboard (frontend/src/services/api.ts)\<close>

text \<open>
  Interface \<open>Customer\<close>. The field \<open>id\<close> is named \<open>customer_ident\<close> here; optional
  fields are options.
\<close>

record customer =
  customer_ident :: int
  name :: string
  mrr :: real
  usage_score :: real
  support_tickets :: int
  last_login_days :: int
  contract_date :: string
  health_score :: real
  customer_type :: "string option"
  payment_status :: "string option"
  engagement_score :: "real option"
  onboarding_completed :: "bool option"
  nps_score :: "real option"
  customer_label :: "string option"

text \<open>
  An alert as the prototype's rule engine builds it (a dictionary with four keys), and
  interface \<open>Alert\<close>, which adds the customer and the creation time. The key \<open>type\<close> is
  named \<open>alert_type\<close>. Severities are strings, as in both sources.
\<close>

record alert_core =
  alert_type :: string
  severity :: string
  message :: string
  actions :: "string list"

record alert = alert_core +
  customer_id :: int
  customer_name :: string
  created_at :: string

subsection \<open>Dashboard: health distribution and high-risk customers\<close>

text \<open>
  \<open>healthDistribution\<close> of the analytics dashboard: four ranges, each with the number of
  customers whose score satisfies the range's test; \<open>customers?.filter(...).length || 0\<close> is 0
  while the customer list is not loaded.
\<close>

definition healthDistribution_bands :: "(string \<times> (real \<Rightarrow> bool)) list" where
  "healthDistribution_bands =
     [(''Excellent (80-100%)'', \<lambda>s. s \<ge> 0.8),
      (''Good (60-80%)'', \<lambda>s. s \<ge> 0.6 \<and> s < 0.8),
      (''At Risk (30-60%)'', \<lambda>s. s \<ge> 0.3 \<and> s < 0.6),
      (''Critical (<30%)'', \<lambda>s. s < 0.3)]"

definition count_where :: "(customer \<Rightarrow> bool) \<Rightarrow> customer list option \<Rightarrow> nat" where
  "count_where p customers = (case customers of None \<Rightarrow> 0 | Some cs \<Rightarrow> length (filter p cs))"

definition healthDistribution :: "customer list option \<Rightarrow> (string \<times> nat) list" where
  "healthDistribution customers =
     map (\<lambda>(range, p). (range, count_where (\<lambda>c. p (health_score c)) customers))
       healthDistribution_bands"

text \<open>The names of the ranges that a score matches.\<close>

definition matching_ranges :: "real \<Rightarrow> string list" where
  "matching_ranges s = map fst (filter (\<lambda>b. snd b s) healthDistribution_bands)"

text \<open>
  \<open>criticalCustomers\<close> of component \<open>AtRiskCustomers\<close>: filter, sort by ascending score
  (\<open>Array.prototype.sort\<close> is stable, as \<^const>\<open>sort_key\<close> is), keep the first five.
\<close>

definition criticalCustomers :: "customer list \<Rightarrow> customer list" where
  "criticalCustomers customers =
     take 5 (sort_key health_score (filter (\<lambda>c. health_score c < 0.3) customers))"

subsection \<open>Alert and action filters (AlertsPage.tsx, ActionsPage)\<close>

text \<open>
  \<open>String.prototype.toLowerCase\<close> on the ASCII letters, and
  \<open>String.prototype.includes\<close> (here \<open>includes_str\<close>) as the contiguous-sublist test.
\<close>

definition lower_char :: "char \<Rightarrow> char" where
  "lower_char c =
     (let n = (of_char c :: nat) in if 65 \<le> n \<and> n \<le> 90 then char_of (n + 32) else c)"

definition toLowerCase :: "string \<Rightarrow> string" where
  "toLowerCase s = map lower_char s"

definition includes_str :: "string \<Rightarrow> string \<Rightarrow> bool" where
  "includes_str s searchString = sublist searchString s"

definition alert_matches :: "string \<Rightarrow> string \<Rightarrow> string \<Rightarrow> alert \<Rightarrow> bool" where
  "alert_matches searchText filterSeverity filterType a =
     (let matchesSearch =
            (includes_str (toLowerCase (customer_name a)) (toLowerCase searchText)
             \<or> includes_str (toLowerCase (message a)) (toLowerCase searchText)
             \<or> includes_str (toLowerCase (alert_type a)) (toLowerCase searchText));
          matchesSeverity = (filterSeverity = ''all'' \<or> severity a = filterSeverity);
          matchesType = (filterType = ''all'' \<or> alert_type a = filterType)
      in matchesSearch \<and> matchesSeverity \<and> matchesType)"

text \<open>\<open>alerts?.filter(...)\<close>: undefined while the alerts are not loaded.\<close>

definition filteredAlerts ::
  "string \<Rightarrow> string \<Rightarrow> string \<Rightarrow> alert list option \<Rightarrow> alert list option" where
  "filteredAlerts searchText filterSeverity filterType alerts =
     map_option (filter (alert_matches searchText filterSeverity filterType)) alerts"

text \<open>The fields of a recommended action that \<open>filterActions\<close> reads (ActionCard.tsx).\<close>

record action =
  action_id :: string
  title :: string
  category :: string
  urgency :: string

definition filterActions :: "string \<Rightarrow> string \<Rightarrow> action list \<Rightarrow> action list" where
  "filterActions selectedUrgency selectedCategory acts =
     filter (\<lambda>a.
       let urgencyMatch = (selectedUrgency = ''all'' \<or> urgency a = selectedUrgency);
           categoryMatch = (selectedCategory = ''all'' \<or> category a = selectedCategory)
       in urgencyMatch \<and> categoryMatch) acts"

text \<open>
  The severity values of interface \<open>Alert\<close> (api.ts) and the table of the severity
  column's sorter (AlertsPage.tsx): \<open>order[a.severity] - order[b.severity]\<close>, where a key
  that the table lacks reads \<open>undefined\<close> and the difference is then not a number.
\<close>

definition Alert_severity_type :: "string list" where
  "Alert_severity_type = [''critical'', ''medium'', ''low'']"

definition severity_order :: "string \<rightharpoonup> int" where
  "severity_order = [''critical'' \<mapsto> 3, ''medium'' \<mapsto> 2, ''low'' \<mapsto> 1]"

definition severity_sorter :: "alert \<Rightarrow> alert \<Rightarrow> int option" where
  "severity_sorter a b =
     (case (severity_order (severity a), severity_order (severity b)) of
        (Some x, Some y) \<Rightarrow> Some (x - y)
      | _ \<Rightarrow> None)"

subsection \<open>Prototype rule engine (prototype PRD: \<open>calculate_health_score\<close>, \<open>generate_alerts\<close>)\<close>

definition calculate_health_score :: "customer \<Rightarrow> real" where
  "calculate_health_score c =
     (let score = 1.0;
          score = (if usage_score c < 0.3 then score - 0.4
                   else if usage_score c < 0.6 then score - 0.2 else score);
          score = (if support_tickets c > 5 then score - 0.3
                   else if support_tickets c > 2 then score - 0.1 else score);
          score = (if last_login_days c > 30 then score - 0.4
                   else if last_login_days c > 7 then score - 0.2 else score)
      in max 0 score)"

text \<open>Decimal rendering of an integer, as an f-string prints it.\<close>

fun digits_of :: "nat \<Rightarrow> string" where
  "digits_of n =
     (if n < 10 then [char_of (48 + n)] else digits_of (n div 10) @ [char_of (48 + n mod 10)])"

definition str_int :: "int \<Rightarrow> string" where
  "str_int i = (if i < 0 then CHR ''-'' # digits_of (nat (- i)) else digits_of (nat i))"

definition generate_alerts :: "customer \<Rightarrow> alert_core list" where
  "generate_alerts c =
     (let alerts = [];
          alerts =
            (if health_score c < 0.3
             then alerts @
               [\<lparr>alert_type = ''churn_risk'', severity = ''critical'',
                 message = name c @ '' has very low health score'',
                 actions = [''Schedule urgent call'', ''Send retention offer'']\<rparr>]
             else alerts);
          alerts =
            (if last_login_days c > 14
             then alerts @
               [\<lparr>alert_type = ''engagement_risk'', severity = ''medium'',
                 message = name c @ '' hasn'' @ [CHR 0x27] @ ''t logged in for ''
                   @ str_int (last_login_days c) @ '' days'',
                 actions = [''Send check-in email'', ''Share new feature update'']\<rparr>]
             else alerts)
      in alerts)"

text \<open>The first customer of the PRD's mock data, with the score the engine gives it.\<close>

definition acme_corp :: customer where
  "acme_corp =
     \<lparr>customer_ident = 1, name = ''Acme Corp'', mrr = 5000, usage_score = 0.1,
      support_tickets = 8, last_login_days = 45, contract_date = ''2023-01-15'',
      health_score = 0, customer_type = None, payment_status = None,
      engagement_score = None, onboarding_completed = None, nps_score = None,
      customer_label = None\<rparr>"

subsection \<open>Alert processing pipeline (docs/architecture/README.md: \<open>generate_alert\<close>)\<close>

text \<open>
  Below 0.4 no branch assigns \<open>severity\<close> and \<open>urgency\<close>, and building the alert raises
  \<open>UnboundLocalError\<close> before \<open>get_next_best_actions\<close> is called. The helper is a
  parameter.
\<close>

datatype py_error = UnboundLocalError

record ('id, 'rf, 'sa) risk_alert =
  ra_customer_id :: 'id
  ra_severity :: string
  ra_urgency :: string
  ra_risk_factors :: 'rf
  ra_suggested_actions :: 'sa

definition generate_alert ::
  "('id \<Rightarrow> 'rf \<Rightarrow> 'sa) \<Rightarrow> 'id \<Rightarrow> real \<Rightarrow> 'rf \<Rightarrow> py_error + ('id, 'rf, 'sa) risk_alert" where
  "generate_alert get_next_best_actions cid risk_score risk_factors =
     (let assigned =
            (if risk_score > 0.8 then Some (''critical'', ''immediate'')
             else if risk_score > 0.6 then Some (''high'', ''within_24h'')
             else if risk_score > 0.4 then Some (''medium'', ''within_week'')
             else None)
      in case assigned of
           None \<Rightarrow> Inl UnboundLocalError
         | Some (sev, urg) \<Rightarrow>
             Inr \<lparr>ra_customer_id = cid, ra_severity = sev, ra_urgency = urg,
                  ra_risk_factors = risk_factors,
                  ra_suggested_actions = get_next_best_actions cid risk_factors\<rparr>)"

subsection \<open>Database types (scripts/setup/init-db.sql)\<close>

text \<open>\<open>CREATE TYPE alert_severity AS ENUM ('low', 'medium', 'high', 'critical')\<close>.\<close>

definition alert_severity_enum :: "string list" where
  "alert_severity_enum = [''low'', ''medium'', ''high'', ''critical'']"

subsection \<open>Trend direction\<close>

text \<open>
  Modelled from the spec: no code that derives a trend is among the sources; only
  interface \<open>HealthTrend\<close> (api.ts), with its three directions, and the code that
  displays a trend are. The definitions of this subsection follow section 4.4 of the
  specification; times are in seconds.
\<close>

datatype trend_direction = Improving | Declining | Stable

record trend_config =
  epsilon :: real
  lookback :: int
  staleness_tolerance :: int

text \<open>Modelled from the spec: \<open>\<epsilon>\<close> defaults to 0.02, the tolerance to three days.\<close>

definition default_trend_config :: trend_config where
  "default_trend_config =
     \<lparr>epsilon = 0.02, lookback = 30 * 86400, staleness_tolerance = 3 * 86400\<rparr>"

text \<open>
  Modelled from the spec: the direction is improving if the change is above \<open>\<epsilon>\<close>,
  declining if it is below \<open>-\<epsilon>\<close>, else stable.
\<close>

definition direction_of :: "real \<Rightarrow> real \<Rightarrow> trend_direction" where
  "direction_of eps change =
     (if change > eps then Improving else if change < - eps then Declining else Stable)"

subsection \<open>Action recommender\<close>

text \<open>
  Modelled from the spec: the action recommender is not among the sources (the helper
  \<open>get_next_best_actions\<close> that \<open>generate_alert\<close> calls is defined nowhere); only
  interface \<open>ActionRecommendation\<close> (api.ts), the code that displays recommendations, and
  table \<open>action_templates\<close> with its default rows (init-db.sql) are. The definitions of
  this subsection follow section 4.6 and the data model of section 3 of the specification.
\<close>

text \<open>
  Interface \<open>ActionRecommendation\<close> (api.ts). Its field \<open>urgency\<close> is named
  \<open>recommendation_urgency\<close> here, since record \<open>action\<close> has a field \<open>urgency\<close>.
\<close>

record action_recommendation =
  action_type :: string
  description :: string
  recommendation_urgency :: string
  effort :: string
  expected_impact :: string
  priority :: int

text \<open>
  Modelled from the spec: an action template (section 3: title, category, applicable alert
  types and severities, effort, nominal success rate, timeline, impact rating), under the
  column names of table \<open>action_templates\<close> where the table has the column.
\<close>

record action_template =
  template_name :: string
  template_description :: string
  template_action_type :: string
  template_category :: string
  applicable_risk_types :: "string list"
  applicable_severities :: "string list"
  template_effort :: string
  success_rate :: real
  timeline :: string
  impact_rating :: string

text \<open>
  Modelled from the spec: the urgency of a recommendation is derived from the severity of
  the alert: critical gives immediate, high gives within_24h, anything else within_week.
\<close>

definition urgency_of_severity_spec :: "string \<Rightarrow> string" where
  "urgency_of_severity_spec sev =
     (if sev = ''critical'' then ''immediate''
      else if sev = ''high'' then ''within_24h''
      else ''within_week'')"

text \<open>
  Modelled from the spec: a template is a candidate for an alert when its applicable alert
  types and its applicable severities contain the alert's type and severity.
\<close>

definition is_candidate :: "'a alert_core_scheme \<Rightarrow> action_template \<Rightarrow> bool" where
  "is_candidate a t =
     (alert_type a \<in> set (applicable_risk_types t) \<and> severity a \<in> set (applicable_severities t))"

text \<open>
  Modelled from the spec: candidates are ranked by (severity match specificity, success
  rate, inverse effort), descending. The specification does not say how specific a match
  is, so that measure is a parameter; the inverse effort puts low effort first.
\<close>

definition inverse_effort :: "string \<Rightarrow> int" where
  "inverse_effort e =
     (if e = ''low'' then 3 else if e = ''medium'' then 2 else if e = ''high'' then 1 else 0)"

definition rank_key ::
  "(action_template \<Rightarrow> string \<Rightarrow> real) \<Rightarrow> 'a alert_core_scheme \<Rightarrow> action_template
     \<Rightarrow> real \<times> real \<times> int" where
  "rank_key specificity a t =
     (- specificity t (severity a), - success_rate t, - inverse_effort (template_effort t))"

definition rank_candidates ::
  "(action_template \<Rightarrow> string \<Rightarrow> real) \<Rightarrow> 'a alert_core_scheme \<Rightarrow> action_template list
     \<Rightarrow> action_template list" where
  "rank_candidates specificity a ts = sort_key (rank_key specificity a) ts"

text \<open>
  Modelled from the spec: a recommendation refers to its template, carries the urgency
  derived from the alert's severity and its rank as priority.
\<close>

definition recommendation_of ::
  "'a alert_core_scheme \<Rightarrow> nat \<times> action_template \<Rightarrow> action_recommendation" where
  "recommendation_of a it =
     \<lparr>action_type = template_action_type (snd it),
      description = template_description (snd it),
      recommendation_urgency = urgency_of_severity_spec (severity a),
      effort = template_effort (snd it),
      expected_impact = impact_rating (snd it),
      priority = int (fst it) + 1\<rparr>"

text \<open>
  Modelled from the spec: for an alert, the recommendations are made from the first
  \<open>top_n\<close> (default 3) ranked candidates; with no candidate the list is empty.
\<close>

definition default_top_n :: nat where
  "default_top_n = 3"

definition recommend_actions ::
  "(action_template \<Rightarrow> string \<Rightarrow> real) \<Rightarrow> nat \<Rightarrow> action_template list \<Rightarrow> 'a alert_core_scheme
     \<Rightarrow> action_recommendation list" where
  "recommend_actions specificity top_n catalog a =
     map (recommendation_of a)
       (enumerate 0 (take top_n (rank_candidates specificity a (filter (is_candidate a) catalog))))"

subsection \<open>Sample data\<close>

text \<open>
  The second customer of the PRD's mock data, and small lists of customers, alerts,
  actions and templates on which the theorems below are evaluated.
\<close>

definition tech_solutions_ltd :: customer where
  "tech_solutions_ltd =
     \<lparr>customer_ident = 2, name = ''Tech Solutions Ltd'', mrr = 3000, usage_score = 0.4,
      support_tickets = 2, last_login_days = 16, contract_date = ''2023-03-01'',
      health_score = 0.6, customer_type = None, payment_status = None,
      engagement_score = None, onboarding_completed = None, nps_score = None,
      customer_label = None\<rparr>"

definition demo_customer :: "int \<Rightarrow> string \<Rightarrow> real \<Rightarrow> customer" where
  "demo_customer i n h =
     \<lparr>customer_ident = i, name = n, mrr = 1000, usage_score = 0.5, support_tickets = 0,
      last_login_days = 1, contract_date = ''2023-01-01'', health_score = h,
      customer_type = None, payment_status = None, engagement_score = None,
      onboarding_completed = None, nps_score = None, customer_label = None\<rparr>"

definition demo_customers :: "customer list" where
  "demo_customers =
     [demo_customer 1 ''A'' 0.25, demo_customer 2 ''B'' 0.9, demo_customer 3 ''C'' 0.05,
      demo_customer 4 ''D'' 0.29, demo_customer 5 ''E'' 0.1, demo_customer 6 ''F'' 0.3,
      demo_customer 7 ''G'' 0, demo_customer 8 ''H'' 0.2, demo_customer 9 ''I'' 0.15]"

definition demo_alert :: "string \<Rightarrow> string \<Rightarrow> string \<Rightarrow> string \<Rightarrow> alert" where
  "demo_alert cn ty sev msg =
     \<lparr>alert_type = ty, severity = sev, message = msg, actions = [],
      customer_id = 1, customer_name = cn, created_at = ''2024-01-20T10:00:00Z''\<rparr>"

definition demo_alerts :: "alert list" where
  "demo_alerts =
     [demo_alert ''Acme Corp'' ''churn_risk'' ''critical'' ''Acme Corp has very low health score'',
      demo_alert ''Tech Solutions Ltd'' ''engagement_risk'' ''medium'' ''No login for 16 days'',
      demo_alert ''Innovation Inc'' ''engagement_risk'' ''medium'' ''Ask ACME for a reference'']"

definition demo_actions :: "action list" where
  "demo_actions =
     [\<lparr>action_id = ''a1'', title = ''Urgent call'', category = ''retention'', urgency = ''critical''\<rparr>,
      \<lparr>action_id = ''a2'', title = ''Training session'', category = ''engagement'', urgency = ''high''\<rparr>,
      \<lparr>action_id = ''a3'', title = ''Retention offer'', category = ''retention'', urgency = ''high''\<rparr>]"

text \<open>
  The default rows of table \<open>action_templates\<close> (init-db.sql); the table has no columns
  for category, effort, success rate, timeline and impact, which are sample values here.
  A match counts as more specific when the template lists fewer severities.
\<close>

definition mk_template ::
  "string \<Rightarrow> string \<Rightarrow> string \<Rightarrow> string list \<Rightarrow> string list \<Rightarrow> string \<Rightarrow> real \<Rightarrow> action_template" where
  "mk_template n d ty risks sevs eff rate =
     \<lparr>template_name = n, template_description = d, template_action_type = ty,
      template_category = ''retention'', applicable_risk_types = risks,
      applicable_severities = sevs, template_effort = eff, success_rate = rate,
      timeline = ''1 week'', impact_rating = ''high''\<rparr>"

definition default_action_templates :: "action_template list" where
  "default_action_templates =
     [mk_template ''Schedule Check-in Call''
        ''Schedule a 15-minute check-in call to understand customer concerns'' ''call''
        [''churn_risk'', ''engagement_drop''] [''medium'', ''high'', ''critical''] ''low'' 0.6,
      mk_template ''Send Feature Resources''
        ''Send educational resources about underutilized features'' ''email''
        [''usage_decline''] [''low'', ''medium''] ''low'' 0.4,
      mk_template ''Executive Business Review''
        ''Schedule EBR to discuss strategic goals and value realization'' ''meeting''
        [''churn_risk'', ''upsell_opportunity''] [''high'', ''critical''] ''high'' 0.7,
      mk_template ''Product Training Session''
        ''Arrange personalized product training session'' ''training''
        [''usage_decline'', ''engagement_drop''] [''medium'', ''high''] ''medium'' 0.5,
      mk_template ''Payment Issue Follow-up''
        ''Contact customer regarding payment or billing concerns'' ''call''
        [''payment_issue''] [''high'', ''critical''] ''low'' 0.8]"

definition fewer_severities :: "action_template \<Rightarrow> string \<Rightarrow> real" where
  "fewer_severities t sev = - real (length (applicable_severities t))"

definition demo_core_alert :: "string \<Rightarrow> string \<Rightarrow> alert_core" where
  "demo_core_alert ty sev = \<lparr>alert_type = ty, severity = sev, message = [], actions = []\<rparr>"

section \<open>Verified properties\<close>

subsection \<open>Auxiliary facts\<close>

lemma alert_matches_all: "alert_matches [] ''all'' ''all'' a"
  by (simp add: alert_matches_def includes_str_def toLowerCase_def)

text \<open>The prototype's overall score is in [0,1] for every customer.\<close>

lemma calculate_health_score_range:
  "0 \<le> calculate_health_score c \<and> calculate_health_score c \<le> 1"
  by (simp add: calculate_health_score_def Let_def)

text \<open>
  The alerts that \<open>generate_alert\<close> builds pair severity and urgency as the recommender's
  mapping does.
\<close>

lemma generate_alert_urgency:
  "generate_alert g cid rs rf = Inr a \<Longrightarrow> ra_urgency a = urgency_of_severity_spec (ra_severity a)"
  by (auto simp: generate_alert_def urgency_of_severity_spec_def Let_def split: if_splits)

lemma recommend_actions_length: "length (recommend_actions specificity top_n catalog a) \<le> top_n"
  by (simp add: recommend_actions_def)

lemma healthDistribution_unfolded:
  "healthDistribution customers =
     [(''Excellent (80-100%)'', count_where (\<lambda>c. health_score c \<ge> 0.8) customers),
      (''Good (60-80%)'',
        count_where (\<lambda>c. health_score c \<ge> 0.6 \<and> health_score c < 0.8) customers),
      (''At Risk (30-60%)'',
        count_where (\<lambda>c. health_score c \<ge> 0.3 \<and> health_score c < 0.6) customers),
      (''Critical (<30%)'', count_where (\<lambda>c. health_score c < 0.3) customers)]"
  by (simp add: healthDistribution_def healthDistribution_bands_def)

text \<open>Every loaded customer is counted in exactly one range.\<close>

lemma band_count_total: "sum_list (map snd (healthDistribution (Some cs))) = length cs"
  by (induction cs)
    (auto simp: healthDistribution_def healthDistribution_bands_def count_where_def)

text \<open>
  The dashboard's severity sorter has no rank for \<open>high\<close>, which interface \<open>Alert\<close> does
  not list either.
\<close>

lemma severity_order_high: "severity_order ''high'' = None \<and> ''high'' \<notin> set Alert_severity_type"
  by (simp add: severity_order_def Alert_severity_type_def)

lemma severity_sorter_high: "severity a = ''high'' \<Longrightarrow> severity_sorter a b = None"
  by (simp add: severity_sorter_def severity_order_def)

text \<open>\<open>getHealthColor\<close> changes colour where \<open>getRiskLevel\<close> changes label.\<close>

lemma getHealthColor_bands:
  "(getHealthColor s = ''#4caf50'' \<longleftrightarrow> label (getRiskLevel s) = ''Excellent'')
   \<and> (getHealthColor s = ''#ff9800'' \<longleftrightarrow> label (getRiskLevel s) = ''Good'')
   \<and> (getHealthColor s = ''#f44336'' \<longleftrightarrow> label (getRiskLevel s) = ''At Risk'')
   \<and> (getHealthColor s = ''#d32f2f'' \<longleftrightarrow> label (getRiskLevel s) = ''Critical'')"
  by (simp add: getHealthColor_def getRiskLevel_def)

subsection \<open>Risk classifier\<close>

text \<open>
  C1. For every overall health score \<open>s\<close> in [0,1], the risk classifier gives the label
  Excellent when \<open>s\<close> is in [0.8,1.0], Good when \<open>s\<close> is in [0.6,0.8), At Risk when \<open>s\<close> is
  in [0.3,0.6) and Critical when \<open>s\<close> is in [0,0.3). Both copies of \<open>getRiskLevel\<close> agree
  on the label.
\<close>

theorem C1_risk_bands:
  assumes "0 \<le> s" and "s \<le> 1"
  shows "(0.8 \<le> s \<and> s \<le> 1.0 \<longrightarrow> label (getRiskLevel s) = ''Excellent'')
       \<and> (0.6 \<le> s \<and> s < 0.8 \<longrightarrow> label (getRiskLevel s) = ''Good'')
       \<and> (0.3 \<le> s \<and> s < 0.6 \<longrightarrow> label (getRiskLevel s) = ''At Risk'')
       \<and> (0 \<le> s \<and> s < 0.3 \<longrightarrow> label (getRiskLevel s) = ''Critical'')
       \<and> label (getRiskLevel_mui s) = label (getRiskLevel s)"
  by (simp add: getRiskLevel_def getRiskLevel_mui_def)

theorem C1_risk_bands_witness:
  "(0::real) \<le> 0.9 \<and> (0.9::real) \<le> 1 \<and> label (getRiskLevel 0.9) = ''Excellent''
   \<and> label (getRiskLevel 0.7) = ''Good''
   \<and> label (getRiskLevel 0.45) = ''At Risk''
   \<and> label (getRiskLevel 0.1) = ''Critical''
   \<and> label (getRiskLevel 1) = ''Excellent'' \<and> label (getRiskLevel 0) = ''Critical''"
  using C1_risk_bands [of "0.9"] C1_risk_bands [of "0.7"] C1_risk_bands [of "0.45"]
    C1_risk_bands [of "0.1"] C1_risk_bands [of 1] C1_risk_bands [of 0]
  by simp

text \<open>
  C3. The bands partition [0,1]: every score \<open>s\<close> in [0,1] matches exactly one range of
  \<open>healthDistribution\<close>, and that range is the one named after the label that
  \<open>getRiskLevel\<close> gives \<open>s\<close>.
\<close>

theorem C3_bands_partition:
  assumes "0 \<le> s" and "s \<le> 1"
  shows "\<exists>r. matching_ranges s = [r] \<and> prefix (label (getRiskLevel s)) r"
  using assms
  by (simp add: matching_ranges_def healthDistribution_bands_def getRiskLevel_def)

theorem C3_bands_partition_witness:
  "(0::real) \<le> 0.45 \<and> (0.45::real) \<le> 1
   \<and> matching_ranges 0.45 = [''At Risk (30-60%)''] \<and> label (getRiskLevel 0.45) = ''At Risk''
   \<and> matching_ranges 0.8 = [''Excellent (80-100%)''] \<and> matching_ranges 0.3 = [''At Risk (30-60%)'']
   \<and> matching_ranges 0 = [''Critical (<30%)''] \<and> matching_ranges 1 = [''Excellent (80-100%)'']"
  using C3_bands_partition [of "0.45"]
  by (simp add: matching_ranges_def healthDistribution_bands_def getRiskLevel_def)

subsection \<open>Monotonicity of the prototype score\<close>

text \<open>
  C8. Monotonicity of \<open>calculate_health_score\<close> in the inputs it treats as positive: a
  higher usage score, all else equal, never lowers the health score, and neither does a
  more recent login (fewer days since the last login).
\<close>

theorem C8_monotone:
  "(u \<le> u' \<longrightarrow> calculate_health_score (c\<lparr>usage_score := u\<rparr>)
        \<le> calculate_health_score (c\<lparr>usage_score := u'\<rparr>))
   \<and> (d' \<le> d \<longrightarrow> calculate_health_score (c\<lparr>last_login_days := d\<rparr>)
        \<le> calculate_health_score (c\<lparr>last_login_days := d'\<rparr>))"
  by (simp add: calculate_health_score_def Let_def)

theorem C8_monotone_witness:
  "(0.4::real) \<le> 0.7 \<and> (3::int) \<le> 16
   \<and> calculate_health_score (tech_solutions_ltd\<lparr>usage_score := 0.4\<rparr>) = 0.6
   \<and> calculate_health_score (tech_solutions_ltd\<lparr>usage_score := 0.7\<rparr>) = 0.8
   \<and> calculate_health_score (tech_solutions_ltd\<lparr>last_login_days := 16\<rparr>) = 0.6
   \<and> calculate_health_score (tech_solutions_ltd\<lparr>last_login_days := 3\<rparr>) = 0.8"
  using C8_monotone [of "0.4" "0.7" tech_solutions_ltd 3 16]
  by (simp add: calculate_health_score_def tech_solutions_ltd_def)

subsection \<open>Alert severities and action urgency\<close>

text \<open>
  C4 (amended). Every alert that the code generates carries a severity of the four-value
  taxonomy low, medium, high, critical (the \<open>alert_severity\<close> enum). The engagement_risk
  rule of \<open>generate_alerts\<close> fires exactly when the last login is more than 14 days ago
  and always emits severity medium, also beyond 30 days; severity high comes from the
  risk-score pipeline \<open>generate_alert\<close> only, for a risk score above 0.6 and at most 0.8.
\<close>

theorem C4_alert_severities:
  "(\<forall>a \<in> set (generate_alerts c).
       severity a \<in> set alert_severity_enum \<and> severity a \<noteq> ''high''
       \<and> (alert_type a = ''engagement_risk'' \<longrightarrow> severity a = ''medium''))
   \<and> ((\<exists>a \<in> set (generate_alerts c). alert_type a = ''engagement_risk'')
        \<longleftrightarrow> last_login_days c > 14)
   \<and> (generate_alert g cid rs rf = Inr ra \<longrightarrow>
        ra_severity ra \<in> set alert_severity_enum
        \<and> (ra_severity ra = ''high'' \<longleftrightarrow> 0.6 < rs \<and> rs \<le> 0.8))"
  by (auto simp: generate_alerts_def generate_alert_def alert_severity_enum_def Let_def
      split: if_splits)

theorem C4_alert_severities_witness:
  "map alert_type (generate_alerts tech_solutions_ltd) = [''engagement_risk'']
   \<and> map severity (generate_alerts tech_solutions_ltd) = [''medium'']
   \<and> last_login_days tech_solutions_ltd > 14
   \<and> map_sum id ra_severity (generate_alert (\<lambda>cid rf. [''urgent_call'']) ''CUST001'' 0.7 [''low_usage''])
       = Inr ''high''"
  using C4_alert_severities [of tech_solutions_ltd "\<lambda>cid rf. [''urgent_call'']" "''CUST001''" "0.7"
      "[''low_usage'']"]
  by (simp add: generate_alerts_def generate_alert_def tech_solutions_ltd_def)

text \<open>
  C4 as stated fails: for Acme Corp, 45 days after its last login, the engagement_risk
  rule emits severity medium, and no alert of severity high.
\<close>

theorem C4_counterexample:
  "last_login_days acme_corp > 30
   \<and> map alert_type (generate_alerts acme_corp) = [''churn_risk'', ''engagement_risk'']
   \<and> map severity (generate_alerts acme_corp) = [''critical'', ''medium'']
   \<and> ''high'' \<notin> set (map severity (generate_alerts acme_corp))"
  by (simp add: generate_alerts_def acme_corp_def)

text \<open>
  C5. For every alert, every recommendation made for it carries the urgency that the fixed
  mapping gives for the alert's severity: immediate for critical, within_24h for high and
  within_week for every other severity. The urgency is one of these three values and so
  never the text of a severity of the taxonomy.
\<close>

theorem C5_recommendation_urgency:
  "\<forall>r \<in> set (recommend_actions specificity top_n catalog a).
     (severity a = ''critical'' \<longrightarrow> recommendation_urgency r = ''immediate'')
     \<and> (severity a = ''high'' \<longrightarrow> recommendation_urgency r = ''within_24h'')
     \<and> (severity a \<noteq> ''critical'' \<and> severity a \<noteq> ''high''
          \<longrightarrow> recommendation_urgency r = ''within_week'')
     \<and> recommendation_urgency r \<in> {''immediate'', ''within_24h'', ''within_week''}
     \<and> (severity a \<in> set alert_severity_enum \<longrightarrow> recommendation_urgency r \<noteq> severity a)"
  by (auto simp: recommend_actions_def recommendation_of_def urgency_of_severity_spec_def
      alert_severity_enum_def)

theorem C5_recommendation_urgency_witness:
  "map (\<lambda>r. (priority r, action_type r, recommendation_urgency r))
     (recommend_actions fewer_severities default_top_n default_action_templates
        (demo_core_alert ''churn_risk'' ''critical''))
     = [(1, ''meeting'', ''immediate''), (2, ''call'', ''immediate'')]
   \<and> map (\<lambda>r. (priority r, action_type r, recommendation_urgency r))
     (recommend_actions fewer_severities default_top_n default_action_templates
        (demo_core_alert ''churn_risk'' ''high''))
     = [(1, ''meeting'', ''within_24h''), (2, ''call'', ''within_24h'')]
   \<and> map (\<lambda>r. (priority r, action_type r, recommendation_urgency r))
     (recommend_actions fewer_severities default_top_n default_action_templates
        (demo_core_alert ''usage_decline'' ''medium''))
     = [(1, ''training'', ''within_week''), (2, ''email'', ''within_week'')]
   \<and> map (\<lambda>r. (priority r, action_type r, recommendation_urgency r))
     (recommend_actions fewer_severities default_top_n default_action_templates
        (demo_core_alert ''usage_decline'' ''low''))
     = [(1, ''email'', ''within_week'')]
   \<and> recommend_actions fewer_severities default_top_n default_action_templates
        (demo_core_alert ''engagement_risk'' ''medium'') = []"
proof -
  have c: "map (\<lambda>r. (priority r, action_type r, recommendation_urgency r))
     (recommend_actions fewer_severities default_top_n default_action_templates
        (demo_core_alert ''churn_risk'' ''critical''))
     = [(1, ''meeting'', ''immediate''), (2, ''call'', ''immediate'')]"
    by code_simp
  have h: "map (\<lambda>r. (priority r, action_type r, recommendation_urgency r))
     (recommend_actions fewer_severities default_top_n default_action_templates
        (demo_core_alert ''churn_risk'' ''high''))
     = [(1, ''meeting'', ''within_24h''), (2, ''call'', ''within_24h'')]"
    by code_simp
  have m: "map (\<lambda>r. (priority r, action_type r, recommendation_urgency r))
     (recommend_actions fewer_severities default_top_n default_action_templates
        (demo_core_alert ''usage_decline'' ''medium''))
     = [(1, ''training'', ''within_week''), (2, ''email'', ''within_week'')]"
    by code_simp
  have l: "map (\<lambda>r. (priority r, action_type r, recommendation_urgency r))
     (recommend_actions fewer_severities default_top_n default_action_templates
        (demo_core_alert ''usage_decline'' ''low''))
     = [(1, ''email'', ''within_week'')]"
    by code_simp
  have e: "recommend_actions fewer_severities default_top_n default_action_templates
        (demo_core_alert ''engagement_risk'' ''medium'') = []"
    by code_simp
  from C5_recommendation_urgency [of fewer_severities default_top_n default_action_templates
      "demo_core_alert ''churn_risk'' ''critical''"] c h m l e
  show ?thesis
    by simp
qed

subsection \<open>Direction of a trend\<close>

text \<open>
  C6. For every change \<open>c\<close> and every threshold \<open>\<epsilon> \<ge> 0\<close>, the direction is improving
  exactly when \<open>c > \<epsilon>\<close>, declining exactly when \<open>c < -\<epsilon>\<close> and stable otherwise, so
  that exactly one of the three holds; the default threshold is 0.02.
\<close>

theorem C6_direction:
  assumes "0 \<le> eps"
  shows "(direction_of eps c = Improving \<longleftrightarrow> c > eps)
       \<and> (direction_of eps c = Declining \<longleftrightarrow> c < - eps)
       \<and> (direction_of eps c = Stable \<longleftrightarrow> \<not> c > eps \<and> \<not> c < - eps)
       \<and> epsilon default_trend_config = 0.02"
  using assms
  by (auto simp: direction_of_def default_trend_config_def)

theorem C6_direction_witness:
  "0 \<le> epsilon default_trend_config
   \<and> direction_of (epsilon default_trend_config) 0.05 = Improving
   \<and> direction_of (epsilon default_trend_config) (- 0.08) = Declining
   \<and> direction_of (epsilon default_trend_config) 0.02 = Stable
   \<and> direction_of (epsilon default_trend_config) (- 0.02) = Stable
   \<and> direction_of (epsilon default_trend_config) 0 = Stable"
  using C6_direction [of "epsilon default_trend_config" "0.05"]
  by (simp add: direction_of_def default_trend_config_def)

subsection \<open>Filters and selections of the dashboard\<close>

text \<open>
  C9. Filtering restricts the identity: the filtered alerts are a subsequence of the
  alerts (and stay undefined while the alerts are), and with an empty search text and
  both filters set to \<open>all\<close> the result is the input itself; the same holds for
  \<open>filterActions\<close> with both of its filters.
\<close>

theorem C9_filter_restricts_identity:
  "(\<exists>out. filteredAlerts q sev ty (Some inp) = Some out \<and> subseq out inp)
   \<and> filteredAlerts q sev ty None = None
   \<and> filteredAlerts [] ''all'' ''all'' alerts = alerts
   \<and> subseq (filterActions urg cat acts) acts
   \<and> filterActions ''all'' ''all'' acts = acts"
  by (cases alerts) (simp_all add: filteredAlerts_def filterActions_def alert_matches_all)

theorem C9_filter_restricts_identity_witness:
  "map_option (map customer_name) (filteredAlerts ''acme'' ''all'' ''all'' (Some demo_alerts))
     = Some [''Acme Corp'', ''Innovation Inc'']
   \<and> map_option (map customer_name)
        (filteredAlerts ''acme'' ''medium'' ''engagement_risk'' (Some demo_alerts))
     = Some [''Innovation Inc'']
   \<and> filteredAlerts [] ''all'' ''all'' (Some demo_alerts) = Some demo_alerts
   \<and> map action_id (filterActions ''high'' ''retention'' demo_actions) = [''a3'']
   \<and> filterActions ''all'' ''all'' demo_actions = demo_actions"
proof -
  have a: "map_option (map customer_name) (filteredAlerts ''acme'' ''all'' ''all'' (Some demo_alerts))
     = Some [''Acme Corp'', ''Innovation Inc'']"
    by code_simp
  have b: "map_option (map customer_name)
        (filteredAlerts ''acme'' ''medium'' ''engagement_risk'' (Some demo_alerts))
     = Some [''Innovation Inc'']"
    by code_simp
  have c: "map action_id (filterActions ''high'' ''retention'' demo_actions) = [''a3'']"
    by code_simp
  from C9_filter_restricts_identity [of "[]" "''all''" "''all''" demo_alerts "Some demo_alerts"
      "''all''" "''all''" demo_actions] a b c
  show ?thesis
    by simp
qed

text \<open>
  C10. The high-risk selection has at most five entries, each of them a customer of the
  input with health score strictly below 0.3, in order of non-decreasing health score.
\<close>

theorem C10_high_risk_selection:
  "length (criticalCustomers cs) \<le> 5
   \<and> (\<forall>c \<in> set (criticalCustomers cs). health_score c < 0.3 \<and> c \<in> set cs)
   \<and> sorted (map health_score (criticalCustomers cs))"
proof (intro conjI ballI)
  show "length (criticalCustomers cs) \<le> 5"
    by (simp add: criticalCustomers_def)
next
  fix c assume "c \<in> set (criticalCustomers cs)"
  then have "c \<in> set (sort_key health_score (filter (\<lambda>c. health_score c < 0.3) cs))"
    unfolding criticalCustomers_def by (rule in_set_takeD)
  then show "health_score c < 0.3" and "c \<in> set cs"
    by simp_all
next
  have "sorted (map health_score
          (sort_key health_score (filter (\<lambda>c. health_score c < 0.3) cs)))"
    by (rule sorted_sort_key)
  then have "sorted (take 5 (map health_score
          (sort_key health_score (filter (\<lambda>c. health_score c < 0.3) cs))))"
    by (rule sorted_wrt_take)
  then show "sorted (map health_score (criticalCustomers cs))"
    by (simp add: criticalCustomers_def take_map)
qed

theorem C10_high_risk_selection_witness:
  "map customer_ident (criticalCustomers demo_customers) = [7, 3, 5, 9, 8]
   \<and> map health_score (criticalCustomers demo_customers) = [0, 0.05, 0.1, 0.15, 0.2]
   \<and> length (criticalCustomers demo_customers) \<le> 5"
  using C10_high_risk_selection [of demo_customers]
  by (simp add: criticalCustomers_def demo_customers_def demo_customer_def)

end
